theory Spec2Isabelle
  imports Main "HOL-Library.Monad_Syntax"
begin

section \<open>Values carried by the monitoring objects\<close>

text \<open>
  The module \<open>cloud_monitor/core/base.py\<close> declares three classes: \<open>MetricData\<close>,
  \<open>CloudResource\<close> and \<open>Alert\<close>. Their fields hold Python strings, floats, booleans and
  \<open>datetime\<close> objects, and two of them serialise themselves into a \<open>dict\<close>.

  A Python float is stored and handed on by this module, never computed with. It is
  either a finite binary fraction \<open>m * 2 ^ e\<close>, one of the two infinities, or NaN.
\<close>

datatype pyfloat = Finite int int | PosInf | NegInf | NaN

text \<open>
  A \<open>datetime\<close> object: the calendar fields, and the offset from UTC in microseconds
  when the object is aware (\<open>None\<close> for a naive one, as \<open>datetime.now()\<close> returns).
  The \<open>tzinfo\<close> object is represented by the offset it yields, which is all that
  \<open>isoformat\<close> reads of it. \<open>dt_fold\<close> is the attribute \<open>fold\<close>, 0 or 1, which tells
  the two passages of a wall-clock time that a change of the clocks repeats apart.
\<close>

record datetime =
  year :: nat
  month :: nat
  day :: nat
  hour :: nat
  minute :: nat
  second :: nat
  microsecond :: nat
  utcoffset :: "int option"
  dt_fold :: nat

text \<open>The ranges that every Python \<open>datetime\<close> object satisfies by construction.\<close>

definition is_leap :: "nat \<Rightarrow> bool" where
  "is_leap y = (y mod 4 = 0 \<and> (y mod 100 \<noteq> 0 \<or> y mod 400 = 0))"

definition days_in_month :: "nat \<Rightarrow> nat \<Rightarrow> nat" where
  "days_in_month y m =
     (if m = 2 then (if is_leap y then 29 else 28)
      else if m = 4 \<or> m = 6 \<or> m = 9 \<or> m = 11 then 30 else 31)"

definition valid_offset :: "int option \<Rightarrow> bool" where
  "valid_offset off =
     (case off of None \<Rightarrow> True
      | Some k \<Rightarrow> - 86400000000 < k \<and> k < 86400000000)"

definition valid_datetime :: "datetime \<Rightarrow> bool" where
  "valid_datetime d =
     (1 \<le> year d \<and> year d \<le> 9999 \<and> 1 \<le> month d \<and> month d \<le> 12 \<and>
      1 \<le> day d \<and> day d \<le> days_in_month (year d) (month d) \<and>
      hour d < 24 \<and> minute d < 60 \<and> second d < 60 \<and> microsecond d < 1000000 \<and>
      valid_offset (utcoffset d) \<and> dt_fold d \<le> 1)"

text \<open>The values that occur in the serialised dictionaries.\<close>

datatype pyval = PStr string | PFloat pyfloat | PBool bool

type_synonym pydict = "string \<rightharpoonup> pyval"

text \<open>
  Exceptions. The module raises \<open>NotImplementedError\<close> with a message and nothing else;
  \<open>ValidationError\<close> is the failure that the specification names for the construction
  of a sample.
\<close>

datatype pyerror = NotImplementedError string | ValidationError

section \<open>The standard library's \<open>datetime.isoformat\<close>\<close>

text \<open>
  \<open>to_dict\<close> calls \<open>self.timestamp.isoformat()\<close>. With its default arguments the
  library prints \<open>"%04d-%02d-%02dT%02d:%02d:%02d"\<close>, then \<open>".%06d"\<close> of the
  microseconds when they are not zero, then the UTC offset of an aware object as
  \<open>"+%02d:%02d"\<close> (sign, hours, minutes), followed by \<open>":%02d"\<close> when the offset has
  seconds or microseconds and by \<open>".%06d"\<close> when it has microseconds. \<open>fold\<close> is not
  printed.
\<close>

definition digit_char :: "nat \<Rightarrow> char" where
  "digit_char n = ''0123456789'' ! (n mod 10)"

fun dec :: "nat \<Rightarrow> string" where
  "dec n = (if n < 10 then [digit_char n] else dec (n div 10) @ [digit_char (n mod 10)])"

declare dec.simps [simp del]

text \<open>\<open>"%0wd" % n\<close>: the decimal digits, filled with zeros on the left up to width \<open>w\<close>.\<close>

definition fmt0 :: "nat \<Rightarrow> nat \<Rightarrow> string" where
  "fmt0 w n = replicate (w - length (dec n)) (CHR ''0'') @ dec n"

definition format_time :: "nat \<Rightarrow> nat \<Rightarrow> nat \<Rightarrow> nat \<Rightarrow> string" where
  "format_time hh mm ss us =
     fmt0 2 hh @ '':'' @ fmt0 2 mm @ '':'' @ fmt0 2 ss @
     (if us = 0 then [] else ''.'' @ fmt0 6 us)"

definition format_offset :: "int option \<Rightarrow> string" where
  "format_offset off =
     (case off of None \<Rightarrow> []
      | Some k \<Rightarrow>
          (let sign = (if k < 0 then ''-'' else ''+'');
               a = nat \<bar>k\<bar>;
               hh = a div 3600000000;
               r = a mod 3600000000;
               mm = r div 60000000;
               r2 = r mod 60000000;
               ss = r2 div 1000000;
               us = r2 mod 1000000
           in sign @ fmt0 2 hh @ '':'' @ fmt0 2 mm @
              (if r2 = 0 then []
               else '':'' @ fmt0 2 ss @ (if us = 0 then [] else ''.'' @ fmt0 6 us))))"

definition isoformat :: "datetime \<Rightarrow> string" where
  "isoformat d =
     fmt0 4 (year d) @ ''-'' @ fmt0 2 (month d) @ ''-'' @ fmt0 2 (day d) @ ''T'' @
     format_time (hour d) (minute d) (second d) (microsecond d) @
     format_offset (utcoffset d)"

section \<open>Reading a timestamp back: \<open>datetime.fromisoformat\<close>\<close>

text \<open>
  The parser that the standard library pairs with \<open>isoformat\<close>, as CPython implements
  it, on the strings of the format that \<open>isoformat\<close> prints with its default arguments:
  \<open>YYYY-MM-DDTHH:MM:SS[.ffffff][+HH:MM[:SS[.ffffff]]]\<close>. Every field is read as a
  fixed number of decimal digits. Two things do not come back as they were printed:
  the object that is built has \<open>fold = 0\<close>, and an offset whose hours, minutes and
  seconds are all zero is read as UTC, whatever its microseconds are.

  \<open>None\<close> is the result for a string that is not of the printed format and for one
  whose fields are out of range. On the latter the library raises \<open>ValueError\<close>; of the
  former the library accepts some (other separators, \<open>Z\<close>, shorter times and
  fractions), and the model is not meant for them: it is applied to what \<open>isoformat\<close>
  printed.
\<close>

definition digit_val :: "char \<Rightarrow> nat option" where
  "digit_val c =
     (let k = (of_char c :: nat) in if 48 \<le> k \<and> k \<le> 57 then Some (k - 48) else None)"

fun parse_digits :: "nat \<Rightarrow> string \<Rightarrow> nat option" where
  "parse_digits acc [] = Some acc"
| "parse_digits acc (c # cs) =
     (case digit_val c of None \<Rightarrow> None | Some v \<Rightarrow> parse_digits (10 * acc + v) cs)"

definition take_num :: "nat \<Rightarrow> string \<Rightarrow> (nat \<times> string) option" where
  "take_num w s =
     (if length s < w then None
      else case parse_digits 0 (take w s) of
             None \<Rightarrow> None
           | Some n \<Rightarrow> Some (n, drop w s))"

definition expect :: "char \<Rightarrow> string \<Rightarrow> string option" where
  "expect c s = (case s of [] \<Rightarrow> None | x # r \<Rightarrow> if x = c then Some r else None)"

definition parse_fraction :: "string \<Rightarrow> (nat \<times> string) option" where
  "parse_fraction s =
     (case s of [] \<Rightarrow> Some (0, [])
      | c # r \<Rightarrow> if c = CHR ''.'' then take_num 6 r else Some (0, s))"

definition parse_offset :: "string \<Rightarrow> int option option" where
  "parse_offset s =
     (case s of [] \<Rightarrow> Some None
      | c # r \<Rightarrow>
          if c = CHR ''+'' \<or> c = CHR ''-'' then
            take_num 2 r \<bind> (\<lambda>(hh, r1).
            expect (CHR '':'') r1 \<bind> (\<lambda>r2.
            take_num 2 r2 \<bind> (\<lambda>(mm, r3).
            (if r3 = [] then Some (0, 0)
             else expect (CHR '':'') r3 \<bind> (\<lambda>r4.
                  take_num 2 r4 \<bind> (\<lambda>(ss, r5).
                  parse_fraction r5 \<bind> (\<lambda>(us, r6).
                  if r6 = [] then Some (ss, us) else None)))) \<bind> (\<lambda>(ss, us).
            if (hh * 60 + mm) * 60 + ss = 0 then Some (Some 0)
            else
              (let total = int (((hh * 60 + mm) * 60 + ss) * 1000000 + us)
               in Some (Some (if c = CHR ''-'' then - total else total)))))))
          else None)"

definition fromisoformat_printed :: "string \<Rightarrow> datetime option" where
  "fromisoformat_printed s =
     take_num 4 s \<bind> (\<lambda>(y, s1).
     expect (CHR ''-'') s1 \<bind> (\<lambda>s2.
     take_num 2 s2 \<bind> (\<lambda>(mo, s3).
     expect (CHR ''-'') s3 \<bind> (\<lambda>s4.
     take_num 2 s4 \<bind> (\<lambda>(d, s5).
     expect (CHR ''T'') s5 \<bind> (\<lambda>s6.
     take_num 2 s6 \<bind> (\<lambda>(hh, s7).
     expect (CHR '':'') s7 \<bind> (\<lambda>s8.
     take_num 2 s8 \<bind> (\<lambda>(mi, s9).
     expect (CHR '':'') s9 \<bind> (\<lambda>s10.
     take_num 2 s10 \<bind> (\<lambda>(ss, s11).
     parse_fraction s11 \<bind> (\<lambda>(us, s12).
     parse_offset s12 \<bind> (\<lambda>off.
     (let dt = \<lparr>year = y, month = mo, day = d, hour = hh, minute = mi, second = ss,
                 microsecond = us, utcoffset = off, dt_fold = 0\<rparr>
      in if valid_datetime dt then Some dt else None))))))))))))))"


section \<open>ISO 8601\<close>

text \<open>
  The date and time of day of ISO 8601 in the extended format, complete
  representation: \<open>YYYY-MM-DD\<close>, the designator \<open>T\<close>, \<open>hh:mm:ss\<close>, optionally a decimal
  sign (comma or full stop) and one or more digits, and optionally a zone designator,
  which is \<open>Z\<close> or a difference from UTC written \<open>+hh:mm\<close>, \<open>-hh:mm\<close>, \<open>+hh\<close> or
  \<open>-hh\<close>. The standard has no seconds in a difference from UTC, and it does not write
  a zero difference with a minus sign. The month and the day are those of the
  calendar; the second may be 60, for a leap second. The recogniser is independent of
  the parser above. The other representations of the standard (basic format, week
  and ordinal dates, reduced accuracy) differ from what \<open>isoformat\<close> prints in the date
  or in the separators and are not recognised.
\<close>

definition is_digit :: "char \<Rightarrow> bool" where
  "is_digit c = (digit_val c \<noteq> None)"

definition iso_zone :: "string \<Rightarrow> bool" where
  "iso_zone z =
     (case z of [] \<Rightarrow> True
      | c # r \<Rightarrow>
          if c = CHR ''Z'' then r = []
          else if c = CHR ''+'' \<or> c = CHR ''-'' then
            (case take_num 2 r of None \<Rightarrow> False
             | Some (hh, r1) \<Rightarrow>
                 hh < 24 \<and>
                 (if r1 = [] then c = CHR ''+'' \<or> 0 < hh
                  else case expect (CHR '':'') r1 of None \<Rightarrow> False
                       | Some r2 \<Rightarrow>
                           (case take_num 2 r2 of None \<Rightarrow> False
                            | Some (mm, r3) \<Rightarrow>
                                mm < 60 \<and> r3 = [] \<and> (c = CHR ''+'' \<or> 0 < hh + mm))))
          else False)"

definition iso_after_seconds :: "string \<Rightarrow> bool" where
  "iso_after_seconds s =
     (case s of [] \<Rightarrow> True
      | c # r \<Rightarrow>
          if c = CHR ''.'' \<or> c = CHR '','' then
            takeWhile is_digit r \<noteq> [] \<and> iso_zone (dropWhile is_digit r)
          else iso_zone s)"

definition iso_time :: "string \<Rightarrow> bool" where
  "iso_time s =
     (case take_num 2 s of None \<Rightarrow> False
      | Some (hh, s1) \<Rightarrow>
     (case expect (CHR '':'') s1 of None \<Rightarrow> False
      | Some s2 \<Rightarrow>
     (case take_num 2 s2 of None \<Rightarrow> False
      | Some (mi, s3) \<Rightarrow>
     (case expect (CHR '':'') s3 of None \<Rightarrow> False
      | Some s4 \<Rightarrow>
     (case take_num 2 s4 of None \<Rightarrow> False
      | Some (ss, s5) \<Rightarrow>
          hh < 24 \<and> mi < 60 \<and> ss \<le> 60 \<and> iso_after_seconds s5)))))"

definition is_iso8601 :: "string \<Rightarrow> bool" where
  "is_iso8601 s =
     (case take_num 4 s of None \<Rightarrow> False
      | Some (y, s1) \<Rightarrow>
     (case expect (CHR ''-'') s1 of None \<Rightarrow> False
      | Some s2 \<Rightarrow>
     (case take_num 2 s2 of None \<Rightarrow> False
      | Some (mo, s3) \<Rightarrow>
     (case expect (CHR ''-'') s3 of None \<Rightarrow> False
      | Some s4 \<Rightarrow>
     (case take_num 2 s4 of None \<Rightarrow> False
      | Some (d, s5) \<Rightarrow>
     (case expect (CHR ''T'') s5 of None \<Rightarrow> False
      | Some s6 \<Rightarrow>
          1 \<le> mo \<and> mo \<le> 12 \<and> 1 \<le> d \<and> d \<le> days_in_month y mo \<and> iso_time s6))))))"

text \<open>
  The timestamps whose offset \<open>isoformat\<close> prints as the standard has it: the naive
  ones, and the aware ones whose offset is a whole number of minutes.
\<close>

definition whole_minutes :: "int option \<Rightarrow> bool" where
  "whole_minutes off = (case off of None \<Rightarrow> True | Some k \<Rightarrow> k mod 60000000 = 0)"


section \<open>The classes of \<open>base.py\<close>\<close>

text \<open>
  HOL record fields share one name space, so the fields of each class carry the
  initials of the class: \<open>md_\<close> for \<open>MetricData\<close>, \<open>cr_\<close> for \<open>CloudResource\<close>,
  \<open>al_\<close> for \<open>Alert\<close>.
\<close>

record MetricData =
  md_name :: string
  md_value :: pyfloat
  md_unit :: string
  md_timestamp :: datetime

record CloudResource =
  cr_resource_id :: string
  cr_resource_type :: string
  cr_region :: string
  cr_metadata :: pydict
  cr_metrics :: pydict
  cr_status :: string

record Alert =
  al_resource_id :: string
  al_metric_name :: string
  al_threshold :: pyfloat
  al_current_value :: pyfloat
  al_severity :: string
  al_timestamp :: datetime
  al_resolved :: bool

text \<open>
  \<open>timestamp or datetime.now()\<close>: Python's \<open>or\<close> yields its left operand when that is
  truthy. \<open>None\<close> is falsy and every \<open>datetime\<close> object is truthy (the class defines
  neither \<open>__bool__\<close> nor \<open>__len__\<close>). The reading of the clock is the argument \<open>now\<close>.
\<close>

definition timestamp_or_now :: "datetime option \<Rightarrow> datetime \<Rightarrow> datetime" where
  "timestamp_or_now timestamp now = (case timestamp of None \<Rightarrow> now | Some t \<Rightarrow> t)"

text \<open>
  \<open>MetricData.__init__\<close>: four assignments and no check, so the call always returns
  (\<open>Inr\<close>) the new object.
\<close>

definition MetricData_init ::
  "string \<Rightarrow> pyfloat \<Rightarrow> string \<Rightarrow> datetime option \<Rightarrow> datetime \<Rightarrow> pyerror + MetricData" where
  "MetricData_init name val unit timestamp now =
     Inr \<lparr>md_name = name, md_value = val, md_unit = unit,
          md_timestamp = timestamp_or_now timestamp now\<rparr>"

text \<open>
  Methods take the object and return their result together with the object as it is
  after the call, so that what a method writes to \<open>self\<close> is visible in the model.
\<close>

definition MetricData_to_dict :: "MetricData \<Rightarrow> pydict \<times> MetricData" where
  "MetricData_to_dict self =
     ([''name'' \<mapsto> PStr (md_name self),
       ''value'' \<mapsto> PFloat (md_value self),
       ''unit'' \<mapsto> PStr (md_unit self),
       ''timestamp'' \<mapsto> PStr (isoformat (md_timestamp self))], self)"

definition CloudResource_init :: "string \<Rightarrow> string \<Rightarrow> string \<Rightarrow> CloudResource" where
  "CloudResource_init resource_id resource_type region =
     \<lparr>cr_resource_id = resource_id, cr_resource_type = resource_type, cr_region = region,
      cr_metadata = Map.empty, cr_metrics = Map.empty, cr_status = ''unknown''\<rparr>"

definition collect_metrics :: "CloudResource \<Rightarrow> pyerror + (pydict \<times> CloudResource)" where
  "collect_metrics self =
     Inl (NotImplementedError ''Each resource type must implement collect_metrics()'')"

definition get_health_status :: "CloudResource \<Rightarrow> string \<times> CloudResource" where
  "get_health_status self = (cr_status self, self)"

definition Alert_init ::
  "string \<Rightarrow> string \<Rightarrow> pyfloat \<Rightarrow> pyfloat \<Rightarrow> string \<Rightarrow> datetime \<Rightarrow> Alert" where
  "Alert_init resource_id metric_name threshold current_value severity now =
     \<lparr>al_resource_id = resource_id, al_metric_name = metric_name,
      al_threshold = threshold, al_current_value = current_value,
      al_severity = severity, al_timestamp = now, al_resolved = False\<rparr>"

definition Alert_to_dict :: "Alert \<Rightarrow> pydict \<times> Alert" where
  "Alert_to_dict self =
     ([''resource_id'' \<mapsto> PStr (al_resource_id self),
       ''metric_name'' \<mapsto> PStr (al_metric_name self),
       ''threshold'' \<mapsto> PFloat (al_threshold self),
       ''current_value'' \<mapsto> PFloat (al_current_value self),
       ''severity'' \<mapsto> PStr (al_severity self),
       ''timestamp'' \<mapsto> PStr (isoformat (al_timestamp self)),
       ''resolved'' \<mapsto> PBool (al_resolved self)], self)"

section \<open>The alert engine that the specification describes\<close>

text \<open>
  \<open>base.py\<close> holds no threshold rule and no alert engine: the specification describes
  them (its sections 3 and 4.3) as the core that the data classes imply. The
  definitions of this section follow that description; the alerts they create are
  built with the \<open>Alert\<close> constructor of the source.
\<close>

text \<open>Modelled from the spec: the comparison operators of a \<open>ThresholdRule\<close>,
  \<open>enum {gt, lt, gte, lte}\<close>; no such type is in \<open>base.py\<close>.\<close>

datatype comparison = Gt | Lt | Gte | Lte

text \<open>Modelled from the spec: \<open>ThresholdRule\<close>, \<open>{metric_name, comparison, threshold:
  float64, severity}\<close>, a class that \<open>base.py\<close> does not declare.\<close>

record ThresholdRule =
  tr_metric_name :: string
  tr_comparison :: comparison
  tr_threshold :: pyfloat
  tr_severity :: string

text \<open>Modelled from the spec: the value of a finite float64 \<open>Finite m e\<close>, which is
  \<open>m * 2 ^ e\<close>, scaled to an exponent \<open>e0\<close> not above \<open>e\<close>, so that two finite values
  are compared as integers. \<open>base.py\<close> compares no floats.\<close>

definition scaled :: "int \<Rightarrow> int \<Rightarrow> int \<Rightarrow> int" where
  "scaled m e e0 = m * 2 ^ nat (e - e0)"

text \<open>Modelled from the spec: \<open>x < y\<close> on float64 values, the order that the
  operators \<open>gt\<close> and \<open>lt\<close> of a rule apply. NaN compares false with everything; the
  infinities lie below and above every finite value.\<close>

fun float_lt :: "pyfloat \<Rightarrow> pyfloat \<Rightarrow> bool" where
  "float_lt NaN y = False"
| "float_lt x NaN = False"
| "float_lt x NegInf = False"
| "float_lt NegInf y = True"
| "float_lt PosInf y = False"
| "float_lt x PosInf = True"
| "float_lt (Finite m1 e1) (Finite m2 e2) =
     (scaled m1 e1 (min e1 e2) < scaled m2 e2 (min e1 e2))"

text \<open>Modelled from the spec: \<open>x == y\<close> on float64 values, the "exact equality" that
  \<open>gte\<close> and \<open>lte\<close> admit. NaN equals nothing, itself included.\<close>

fun float_eq :: "pyfloat \<Rightarrow> pyfloat \<Rightarrow> bool" where
  "float_eq NaN y = False"
| "float_eq x NaN = False"
| "float_eq (Finite m1 e1) (Finite m2 e2) =
     (scaled m1 e1 (min e1 e2) = scaled m2 e2 (min e1 e2))"
| "float_eq x y = (x = y)"

text \<open>Modelled from the spec: "Apply the comparison operator to (sample.value,
  rule.threshold); exact equality on gte/lte treated as satisfying the bound."\<close>

fun satisfies :: "comparison \<Rightarrow> pyfloat \<Rightarrow> pyfloat \<Rightarrow> bool" where
  "satisfies Gt v t = float_lt t v"
| "satisfies Lt v t = float_lt v t"
| "satisfies Gte v t = (float_lt t v \<or> float_eq v t)"
| "satisfies Lte v t = (float_lt v t \<or> float_eq v t)"

text \<open>Modelled from the spec: "AlertEngine holds process-wide state: the mapping of
  open-alert keys \<open>\<rightarrow>\<close> Alert", with "Identity key = (resource_id, metric_name)".\<close>

type_synonym open_alerts = "(string \<times> string) \<rightharpoonup> Alert"

text \<open>Modelled from the spec: the calendar fields of a timestamp, most significant
  first, by which two naive timestamps are ordered in time.\<close>

definition calendar_fields :: "datetime \<Rightarrow> nat list" where
  "calendar_fields d =
     [year d, month d, day d, hour d, minute d, second d, microsecond d]"

text \<open>Modelled from the spec: "not more recent than", the lexicographic order of the
  calendar fields.\<close>

fun fields_le :: "nat list \<Rightarrow> nat list \<Rightarrow> bool" where
  "fields_le [] ys = True"
| "fields_le (x # xs) [] = False"
| "fields_le (x # xs) (y # ys) = (x < y \<or> (x = y \<and> fields_le xs ys))"

text \<open>Modelled from the spec: "the most recent sample matching metric_name" among the
  samples of a cycle; \<open>None\<close> when no sample matches. The specification does not say
  how an aware timestamp compares with a naive one, nor which of two equally recent
  samples is taken, so the engine below takes the choice as its first argument, and
  what is proved of the engine holds for every choice. This is one choice, for
  samples stamped by \<open>datetime.now()\<close>: the matching sample whose calendar fields are
  greatest, the last of the list among equals.\<close>

fun most_recent_matching :: "string \<Rightarrow> MetricData list \<Rightarrow> MetricData option" where
  "most_recent_matching metric [] = None"
| "most_recent_matching metric (s # rest) =
     (case most_recent_matching metric rest of
        None \<Rightarrow> (if md_name s = metric then Some s else None)
      | Some b \<Rightarrow>
          (if md_name s = metric \<and>
              \<not> fields_le (calendar_fields (md_timestamp s)) (calendar_fields (md_timestamp b))
           then Some s else Some b))"

text \<open>Modelled from the spec: the state transition of one rule, per key
  \<open>(resource_id, metric_name)\<close>. No matching sample: no event. No open alert and the
  predicate true: a new \<open>Alert\<close> is emitted and marked open. An open alert and the
  predicate true: no event, the open alert is left as it is. An open alert and the
  predicate false: the alert is emitted with \<open>resolved = true\<close> and \<open>timestamp = now\<close>,
  and the key is closed. Neither: no event. The state and the events emitted so far
  are threaded through.\<close>

definition evaluate_rule ::
  "(string \<Rightarrow> MetricData list \<Rightarrow> MetricData option) \<Rightarrow> datetime \<Rightarrow> string \<Rightarrow>
   MetricData list \<Rightarrow> open_alerts \<times> Alert list \<Rightarrow> ThresholdRule \<Rightarrow> open_alerts \<times> Alert list" where
  "evaluate_rule most_recent now resource_id samples st rule =
     (case most_recent (tr_metric_name rule) samples of
        None \<Rightarrow> st
      | Some sample \<Rightarrow>
          (let key = (resource_id, tr_metric_name rule);
               fires = satisfies (tr_comparison rule) (md_value sample) (tr_threshold rule)
           in case fst st key of
                None \<Rightarrow>
                  if fires then
                    (let a = Alert_init resource_id (tr_metric_name rule) (tr_threshold rule)
                               (md_value sample) (tr_severity rule) now
                     in ((fst st)(key \<mapsto> a), snd st @ [a]))
                  else st
              | Some a \<Rightarrow>
                  if fires then st
                  else ((fst st)(key := None),
                        snd st @ [a\<lparr>al_timestamp := now, al_resolved := True\<rparr>])))"

text \<open>Modelled from the spec: \<open>evaluate(resource_id, samples, rules)\<close>, which goes
  through the ordered sequence of rules and returns the events; the open-alert map is
  the engine's state, passed in and returned.\<close>

definition evaluate ::
  "(string \<Rightarrow> MetricData list \<Rightarrow> MetricData option) \<Rightarrow> datetime \<Rightarrow> open_alerts \<Rightarrow>
   string \<Rightarrow> MetricData list \<Rightarrow> ThresholdRule list \<Rightarrow> open_alerts \<times> Alert list" where
  "evaluate most_recent now opn resource_id samples rules =
     foldl (evaluate_rule most_recent now resource_id samples) (opn, []) rules"

text \<open>Modelled from the spec: one call of \<open>evaluate\<close>, that is the reading of the clock
  at the call and the three arguments \<open>resource_id\<close>, \<open>samples\<close>, \<open>rules\<close>.\<close>

type_synonym evaluate_call = "datetime \<times> string \<times> MetricData list \<times> ThresholdRule list"

text \<open>Modelled from the spec: the life of the engine's state, "initialized empty at
  engine construction; entries added/removed only via evaluate()": the open-alert map
  after a sequence of calls.\<close>

definition engine_after ::
  "(string \<Rightarrow> MetricData list \<Rightarrow> MetricData option) \<Rightarrow> evaluate_call list \<Rightarrow> open_alerts" where
  "engine_after most_recent calls =
     foldl (\<lambda>opn (now, resource_id, samples, rules).
              fst (evaluate most_recent now opn resource_id samples rules))
           Map.empty calls"

section \<open>Sample values\<close>

definition sample_time :: datetime where
  "sample_time = \<lparr>year = 2024, month = 2, day = 29, hour = 23, minute = 5, second = 0,
                  microsecond = 1500, utcoffset = Some (- 19800000000), dt_fold = 0\<rparr>"

definition clock_time :: datetime where
  "clock_time = \<lparr>year = 2025, month = 11, day = 3, hour = 9, minute = 30, second = 15,
                 microsecond = 0, utcoffset = None, dt_fold = 0\<rparr>"

text \<open>
  A timestamp in a zone five hours, thirty minutes and fifteen seconds east of UTC;
  one in a zone a microsecond west of UTC; and the second passage of 01:30 in a night
  when the clocks go back.
\<close>

definition seconds_offset_time :: datetime where
  "seconds_offset_time =
     \<lparr>year = 2024, month = 6, day = 15, hour = 12, minute = 0, second = 0,
      microsecond = 0, utcoffset = Some 19815000000, dt_fold = 0\<rparr>"



definition sample_alert :: Alert where
  "sample_alert = Alert_init ''vm-1'' ''cpu'' (Finite 90 0) (Finite 95 0) ''critical'' clock_time"

definition cpu_rule :: ThresholdRule where
  "cpu_rule = \<lparr>tr_metric_name = ''cpu'', tr_comparison = Gt, tr_threshold = Finite 90 0,
               tr_severity = ''critical''\<rparr>"

definition cpu_sample :: "int \<Rightarrow> MetricData" where
  "cpu_sample v = \<lparr>md_name = ''cpu'', md_value = Finite v 0, md_unit = ''percent'',
                   md_timestamp = clock_time\<rparr>"

definition offset_sample :: MetricData where
  "offset_sample = \<lparr>md_name = ''cpu'', md_value = Finite 95 0, md_unit = ''percent'',
                     md_timestamp = sample_time\<rparr>"

text \<open>
  Three cycles of the scenario of the specification's section 8: the rule
  \<open>cpu > 90\<close> on resource \<open>vm-1\<close>, with the readings 50, 95 and 92. After them the
  alert raised at 95 is open.
\<close>

definition scenario_calls :: "evaluate_call list" where
  "scenario_calls =
     [(clock_time, ''vm-1'', [cpu_sample 50], [cpu_rule]),
      (clock_time, ''vm-1'', [cpu_sample 95], [cpu_rule]),
      (clock_time, ''vm-1'', [cpu_sample 92], [cpu_rule])]"

section \<open>Decimal fields: printing and reading agree\<close>

lemma digit_val_lt10: "k < 10 \<Longrightarrow> digit_val (''0123456789'' ! k) = Some k"
proof -
  assume "k < 10"
  then have "k \<in> {0,1,2,3,4,5,6,7,8,9}" by auto
  then show ?thesis by (auto simp: digit_val_def)
qed

lemma digit_val_digit_char: "digit_val (digit_char n) = Some (n mod 10)"
  by (simp add: digit_char_def digit_val_lt10)

lemma parse_digits_append:
  "parse_digits acc (xs @ ys) = parse_digits acc xs \<bind> (\<lambda>a. parse_digits a ys)"
  by (induction xs arbitrary: acc) (auto split: option.splits)

lemma parse_digits_dec: "parse_digits acc (dec n) = Some (acc * 10 ^ length (dec n) + n)"
proof (induction n arbitrary: acc rule: dec.induct)
  case (1 n)
  show ?case
  proof (cases "n < 10")
    case True
    then show ?thesis
      by (subst (1 2) dec.simps) (simp add: digit_val_digit_char)
  next
    case False
    then show ?thesis
      using "1.IH" [OF False]
      by (subst (1 2) dec.simps) (simp add: parse_digits_append digit_val_digit_char algebra_simps)
  qed
qed

lemma parse_digits_zeros: "parse_digits 0 (replicate k (CHR ''0'')) = Some 0"
  by (induction k) (simp_all add: digit_val_def)

lemma parse_digits_fmt0: "parse_digits 0 (fmt0 w n) = Some n"
  by (simp add: fmt0_def parse_digits_append parse_digits_zeros parse_digits_dec)

lemma length_dec: "0 < w \<Longrightarrow> n < 10 ^ w \<Longrightarrow> length (dec n) \<le> w"
proof (induction n arbitrary: w rule: dec.induct)
  case (1 n)
  show ?case
  proof (cases "n < 10")
    case True
    then show ?thesis using "1.prems" by (subst dec.simps) simp
  next
    case False
    obtain v where w: "w = Suc v" using "1.prems"(1) by (cases w) auto
    have "0 < v" using False "1.prems"(2) w by (cases v) auto
    moreover have "n div 10 < 10 ^ v" using "1.prems"(2) w
      by (simp add: less_mult_imp_div_less mult.commute)
    ultimately have "length (dec (n div 10)) \<le> v" using "1.IH" [OF False] by blast
    then show ?thesis using False w by (subst dec.simps) simp
  qed
qed

lemma length_fmt0: "0 < w \<Longrightarrow> n < 10 ^ w \<Longrightarrow> length (fmt0 w n) = w"
  using length_dec [of w n] by (simp add: fmt0_def)

lemma take_num_fmt0:
  "0 < w \<Longrightarrow> n < 10 ^ w \<Longrightarrow> take_num w (fmt0 w n @ r) = Some (n, r)"
  by (simp add: take_num_def length_fmt0 parse_digits_fmt0)


lemma expect_Cons: "expect c (c # r) = Some r"
  by (simp add: expect_def)

lemma parse_fraction_fmt:
  assumes "us < 1000000" and "r = [] \<or> hd r \<noteq> CHR ''.''"
  shows "parse_fraction ((if us = 0 then [] else ''.'' @ fmt0 6 us) @ r) = Some (us, r)"
proof (cases "us = 0")
  case True
  then show ?thesis using assms(2) by (cases r) (auto simp: parse_fraction_def)
next
  case False
  have "take_num 6 (fmt0 6 us @ r) = Some (us, r)"
    using assms(1) by (intro take_num_fmt0) simp_all
  then show ?thesis using False by (simp add: parse_fraction_def)
qed


section \<open>The offset and the fraction are read back\<close>






section \<open>What \<open>fromisoformat\<close> returns on what \<open>isoformat\<close> printed\<close>


lemma field_facts:
  assumes "valid_datetime d"
  shows "take_num 4 (fmt0 4 (year d) @ x) = Some (year d, x)"
    and "take_num 2 (fmt0 2 (month d) @ x) = Some (month d, x)"
    and "take_num 2 (fmt0 2 (day d) @ x) = Some (day d, x)"
    and "take_num 2 (fmt0 2 (hour d) @ x) = Some (hour d, x)"
    and "take_num 2 (fmt0 2 (minute d) @ x) = Some (minute d, x)"
    and "take_num 2 (fmt0 2 (second d) @ x) = Some (second d, x)"
proof -
  have dim: "days_in_month (year d) (month d) \<le> 31"
    by (simp add: days_in_month_def)
  have two: "n < 100 \<Longrightarrow> take_num 2 (fmt0 2 n @ x) = Some (n, x)" for n
    by (intro take_num_fmt0) simp_all
  show "take_num 4 (fmt0 4 (year d) @ x) = Some (year d, x)"
    using assms by (intro take_num_fmt0) (simp_all add: valid_datetime_def)
  show "take_num 2 (fmt0 2 (month d) @ x) = Some (month d, x)"
    using assms by (intro two) (simp add: valid_datetime_def)
  show "take_num 2 (fmt0 2 (day d) @ x) = Some (day d, x)"
    using assms dim by (intro two) (simp add: valid_datetime_def)
  show "take_num 2 (fmt0 2 (hour d) @ x) = Some (hour d, x)"
    using assms by (intro two) (simp add: valid_datetime_def)
  show "take_num 2 (fmt0 2 (minute d) @ x) = Some (minute d, x)"
    using assms by (intro two) (simp add: valid_datetime_def)
  show "take_num 2 (fmt0 2 (second d) @ x) = Some (second d, x)"
    using assms by (intro two) (simp add: valid_datetime_def)
qed


lemma is_digit_digit_char: "is_digit (digit_char n)"
  by (simp add: is_digit_def digit_val_digit_char)

lemma is_digit_dec: "\<forall>c\<in>set (dec n). is_digit c"
proof (induction n rule: dec.induct)
  case (1 n)
  show ?case
  proof (cases "n < 10")
    case True
    then show ?thesis by (subst dec.simps) (simp add: is_digit_digit_char)
  next
    case False
    then show ?thesis
      using "1.IH" [OF False] by (subst dec.simps) (simp add: is_digit_digit_char)
  qed
qed

lemma is_digit_zero: "is_digit (CHR ''0'')"
  by (simp add: is_digit_def digit_val_def)

lemma is_digit_fmt0: "\<forall>c\<in>set (fmt0 w n). is_digit c"
  using is_digit_dec [of n] by (auto simp: fmt0_def is_digit_zero)

lemma format_offset_no_digit:
  "takeWhile is_digit (format_offset off) = [] \<and>
   dropWhile is_digit (format_offset off) = format_offset off"
  by (cases off) (simp_all add: format_offset_def Let_def is_digit_def digit_val_def)

lemma iso_zone_format_offset:
  assumes "valid_offset off" and "whole_minutes off"
  shows "iso_zone (format_offset off)"
proof (cases off)
  case None
  then show ?thesis by (simp add: iso_zone_def format_offset_def)
next
  case (Some k)
  define a where "a = nat \<bar>k\<bar>"
  define hh where "hh = a div 3600000000"
  define r where "r = a mod 3600000000"
  define mm where "mm = r div 60000000"
  define r2 where "r2 = r mod 60000000"
  have a: "a < 86400000000" using assms(1) Some unfolding valid_offset_def a_def by auto
  have hh: "hh < 24" using a unfolding hh_def by simp
  have mm: "mm < 60" unfolding mm_def r_def by simp
  have "k mod 60000000 = 0" using assms(2) Some by (simp add: whole_minutes_def)
  then have "60000000 dvd k" by presburger
  then have "60000000 dvd \<bar>k\<bar>" by simp
  then have dv: "60000000 dvd a" unfolding a_def
    by (metis abs_ge_zero int_dvd_int_iff nat_0_le of_nat_numeral)
  have r2: "r2 = 0"
    unfolding r2_def r_def using dv by (simp add: mod_mod_cancel dvd_eq_mod_eq_0)
  have a_eq: "a = (hh * 60 + mm) * 60000000"
  proof -
    have "a = hh * 3600000000 + r" unfolding hh_def r_def by simp
    moreover have "r = mm * 60000000 + r2" unfolding mm_def r2_def by simp
    ultimately show ?thesis using r2 by simp
  qed
  have pos: "k < 0 \<Longrightarrow> 0 < hh + mm"
  proof -
    assume "k < 0"
    then have "0 < a" by (simp add: a_def)
    then show "0 < hh + mm" using a_eq by (cases "hh + mm = 0") auto
  qed
  have two: "n < 100 \<Longrightarrow> take_num 2 (fmt0 2 n @ x) = Some (n, x)" for n x
    by (intro take_num_fmt0) simp_all
  have two0: "n < 100 \<Longrightarrow> take_num 2 (fmt0 2 n) = Some (n, [])" for n
    using two [of n "[]"] by simp
  have ne: "fmt0 2 mm \<noteq> []"
    using length_fmt0 [of 2 mm] mm by auto
  have fmt: "format_offset off =
      (if k < 0 then ''-'' else ''+'') @ fmt0 2 hh @ '':'' @ fmt0 2 mm"
    using r2
    by (simp add: format_offset_def Some Let_def a_def hh_def r_def mm_def r2_def)
  show ?thesis
    unfolding fmt iso_zone_def
    using hh mm pos by (simp add: two two0 expect_Cons)
qed

lemma iso_after_seconds_printed:
  assumes "us < 1000000" and "valid_offset off" and "whole_minutes off"
  shows "iso_after_seconds ((if us = 0 then [] else ''.'' @ fmt0 6 us) @ format_offset off)"
proof (cases "us = 0")
  case True
  have "iso_after_seconds (format_offset off)"
  proof (cases "format_offset off")
    case Nil
    then show ?thesis by (simp add: iso_after_seconds_def)
  next
    case (Cons c r)
    have "c \<noteq> CHR ''.'' \<and> c \<noteq> CHR '',''"
      using Cons by (cases off) (auto simp: format_offset_def Let_def split: if_splits)
    then show ?thesis
      using iso_zone_format_offset [OF assms(2,3)] Cons by (simp add: iso_after_seconds_def)
  qed
  then show ?thesis using True by simp
next
  case False
  have "fmt0 6 us \<noteq> []"
    using length_fmt0 [of 6 us] assms(1) by auto
  then show ?thesis
    using False iso_zone_format_offset [OF assms(2,3)] is_digit_fmt0 [of 6 us]
      format_offset_no_digit [of off]
    by (simp add: iso_after_seconds_def takeWhile_append2 dropWhile_append2)
qed

lemma is_iso8601_isoformat:
  assumes "valid_datetime d" and "whole_minutes (utcoffset d)"
  shows "is_iso8601 (isoformat d)"
proof -
  note f = field_facts [OF assms(1)]
  have us: "microsecond d < 1000000" and vo: "valid_offset (utcoffset d)"
    using assms(1) by (simp_all add: valid_datetime_def)
  note a = iso_after_seconds_printed [OF us vo assms(2)]
  have t: "iso_time (format_time (hour d) (minute d) (second d) (microsecond d) @
             format_offset (utcoffset d))"
  proof (cases "microsecond d = 0")
    case True
    then show ?thesis
      unfolding iso_time_def format_time_def
      using a assms(1) by (simp add: f expect_Cons valid_datetime_def)
  next
    case False
    then show ?thesis
      unfolding iso_time_def format_time_def
      using a assms(1) by (simp add: f expect_Cons valid_datetime_def)
  qed
  show ?thesis
    unfolding is_iso8601_def isoformat_def
    using t assms(1) by (simp add: f expect_Cons valid_datetime_def)
qed

section \<open>The models on concrete values\<close>


lemma replicate_small:
  "replicate 2 c = [c, c]" "replicate 3 c = [c, c, c]" "replicate 4 c = [c, c, c, c]"
  "replicate 5 c = [c, c, c, c, c]"
  by (simp_all add: eval_nat_numeral)

lemma dec_one: "dec (Suc 0) = ''1''"
  by (subst dec.simps) (simp add: digit_char_def)

lemma fmt0_examples:
  "fmt0 4 2024 = ''2024''" "fmt0 4 2025 = ''2025''" "fmt0 6 1500 = ''001500''"
  "fmt0 6 (Suc 0) = ''000001''" "fmt0 2 (Suc 0) = ''01''"
  "fmt0 2 0 = ''00''" "fmt0 2 2 = ''02''" "fmt0 2 3 = ''03''"
  "fmt0 2 5 = ''05''" "fmt0 2 6 = ''06''" "fmt0 2 9 = ''09''" "fmt0 2 11 = ''11''"
  "fmt0 2 12 = ''12''" "fmt0 2 15 = ''15''" "fmt0 2 23 = ''23''" "fmt0 2 29 = ''29''"
  "fmt0 2 30 = ''30''"
  by (simp_all add: fmt0_def dec.simps dec_one digit_char_def replicate_small)

lemma isoformat_sample_time: "isoformat sample_time = ''2024-02-29T23:05:00.001500-05:30''"
  by (simp add: isoformat_def format_time_def format_offset_def sample_time_def Let_def
      fmt0_examples)

lemma isoformat_clock_time: "isoformat clock_time = ''2025-11-03T09:30:15''"
  by (simp add: isoformat_def format_time_def format_offset_def clock_time_def fmt0_examples)

lemma isoformat_seconds_offset_time:
  "isoformat seconds_offset_time = ''2024-06-15T12:00:00+05:30:15''"
  by (simp add: isoformat_def format_time_def format_offset_def seconds_offset_time_def Let_def
      fmt0_examples)



lemmas parser_defs = take_num_def expect_def parse_fraction_def parse_offset_def digit_val_def

lemma fromisoformat_rejects: "fromisoformat_printed ''2023-02-29T00:00:00'' = None"
  by (simp add: fromisoformat_printed_def parser_defs valid_datetime_def days_in_month_def
      is_leap_def)



lemmas iso_defs = is_iso8601_def iso_time_def iso_after_seconds_def iso_zone_def

lemma iso8601_rejects_offset_seconds: "\<not> is_iso8601 ''2024-06-15T12:00:00+05:30:15''"
  by (simp add: iso_defs parser_defs days_in_month_def)

lemma iso8601_accepts_offset_minutes: "is_iso8601 ''2024-06-15T12:00:00+05:30''"
  by (simp add: iso_defs parser_defs days_in_month_def)

lemma iso8601_accepts_zulu: "is_iso8601 ''2024-06-15T12:00:00,5Z''"
  by (simp add: iso_defs parser_defs days_in_month_def is_digit_def)

lemma valid_clock_time: "valid_datetime clock_time"
  by (simp add: clock_time_def valid_datetime_def days_in_month_def valid_offset_def)

lemma valid_sample_time: "valid_datetime sample_time"
  by (simp add: sample_time_def valid_datetime_def days_in_month_def is_leap_def
      valid_offset_def)

lemma valid_seconds_offset_time: "valid_datetime seconds_offset_time"
  by (simp add: seconds_offset_time_def valid_datetime_def days_in_month_def valid_offset_def)




section \<open>The engine keeps every open alert under its own key\<close>

lemma evaluate_rule_keyed:
  assumes "\<forall>k a. fst st k = Some a \<longrightarrow>
             al_resource_id a = fst k \<and> al_metric_name a = snd k \<and> \<not> al_resolved a"
  shows "\<forall>k a. fst (evaluate_rule pick now rid samples st rule) k = Some a \<longrightarrow>
             al_resource_id a = fst k \<and> al_metric_name a = snd k \<and> \<not> al_resolved a"
  using assms
  by (auto simp: evaluate_rule_def Let_def Alert_init_def split: option.splits if_splits)

lemma foldl_evaluate_rule_keyed:
  assumes "\<forall>k a. fst st k = Some a \<longrightarrow>
             al_resource_id a = fst k \<and> al_metric_name a = snd k \<and> \<not> al_resolved a"
  shows "\<forall>k a. fst (foldl (evaluate_rule pick now rid samples) st rules) k = Some a \<longrightarrow>
             al_resource_id a = fst k \<and> al_metric_name a = snd k \<and> \<not> al_resolved a"
  using assms
proof (induction rules arbitrary: st)
  case Nil
  then show ?case by simp
next
  case (Cons r rules)
  have "\<forall>k a. fst (evaluate_rule pick now rid samples st r) k = Some a \<longrightarrow>
          al_resource_id a = fst k \<and> al_metric_name a = snd k \<and> \<not> al_resolved a"
    by (rule evaluate_rule_keyed [OF Cons.prems])
  from Cons.IH [OF this] show ?case by simp
qed

lemma evaluate_keyed:
  assumes "\<forall>k a. opn k = Some a \<longrightarrow>
             al_resource_id a = fst k \<and> al_metric_name a = snd k \<and> \<not> al_resolved a"
  shows "\<forall>k a. fst (evaluate pick now opn rid samples rules) k = Some a \<longrightarrow>
             al_resource_id a = fst k \<and> al_metric_name a = snd k \<and> \<not> al_resolved a"
  unfolding evaluate_def
  by (rule foldl_evaluate_rule_keyed) (use assms in simp)

lemma engine_after_keyed:
  "\<forall>k a. engine_after pick calls k = Some a \<longrightarrow>
     al_resource_id a = fst k \<and> al_metric_name a = snd k \<and> \<not> al_resolved a"
proof (induction calls rule: rev_induct)
  case Nil
  show ?case by (simp add: engine_after_def)
next
  case (snoc c calls)
  obtain now rid samples rules where c: "c = (now, rid, samples, rules)"
    by (cases c) auto
  have step: "engine_after pick (calls @ [c]) =
      fst (evaluate pick now (engine_after pick calls) rid samples rules)"
    by (simp add: engine_after_def c)
  show ?case unfolding step by (rule evaluate_keyed [OF snoc.IH])
qed


lemma scenario_open_alert:
  "engine_after most_recent_matching scenario_calls (''vm-1'', ''cpu'') = Some sample_alert"
  by (simp add: engine_after_def scenario_calls_def evaluate_def evaluate_rule_def
      cpu_sample_def cpu_rule_def sample_alert_def scaled_def Let_def)

section \<open>The claims\<close>

text \<open>
  C1, as the code has it. The claim reads: constructing a sample fails with
  \<open>ValidationError\<close> when the name or the unit is empty or the value is NaN or
  infinite. \<open>MetricData.__init__\<close> checks nothing: for every name, value, unit and
  optional timestamp the construction returns a sample that stores the name, the
  value and the unit as given.
\<close>

theorem metric_init_never_fails:
  "\<exists>m. MetricData_init name val unit ts now = Inr m \<and>
       md_name m = name \<and> md_value m = val \<and> md_unit m = unit"
  by (simp add: MetricData_init_def)

text \<open>
  C1 as stated fails: with an empty name, an empty unit and NaN, and with an infinite
  value, the construction returns a sample and raises no \<open>ValidationError\<close>.
\<close>

theorem metric_init_accepts_invalid:
  "MetricData_init '''' NaN '''' None clock_time \<noteq> Inl ValidationError \<and>
   MetricData_init '''' NaN '''' None clock_time =
     Inr \<lparr>md_name = '''', md_value = NaN, md_unit = '''', md_timestamp = clock_time\<rparr> \<and>
   MetricData_init ''cpu'' PosInf ''percent'' None clock_time =
     Inr \<lparr>md_name = ''cpu'', md_value = PosInf, md_unit = ''percent'',
          md_timestamp = clock_time\<rparr>"
  by (simp add: MetricData_init_def timestamp_or_now_def)

text \<open>
  C2, as the code has it. Both dictionaries have exactly the keys of the claim; the
  entry \<open>timestamp\<close> is the string that \<open>isoformat\<close> prints and \<open>resolved\<close> is a
  boolean. That string is in ISO 8601 format whenever the timestamp is naive or its
  offset from UTC is a whole number of minutes.
\<close>

theorem to_dict_keys_and_types:
  "dom (fst (MetricData_to_dict m)) = {''name'', ''value'', ''unit'', ''timestamp''} \<and>
   fst (MetricData_to_dict m) ''timestamp'' = Some (PStr (isoformat (md_timestamp m))) \<and>
   (valid_datetime (md_timestamp m) \<and> whole_minutes (utcoffset (md_timestamp m)) \<longrightarrow>
      is_iso8601 (isoformat (md_timestamp m))) \<and>
   dom (fst (Alert_to_dict a)) =
     {''resource_id'', ''metric_name'', ''threshold'', ''current_value'', ''severity'',
      ''timestamp'', ''resolved''} \<and>
   fst (Alert_to_dict a) ''timestamp'' = Some (PStr (isoformat (al_timestamp a))) \<and>
   (valid_datetime (al_timestamp a) \<and> whole_minutes (utcoffset (al_timestamp a)) \<longrightarrow>
      is_iso8601 (isoformat (al_timestamp a))) \<and>
   fst (Alert_to_dict a) ''resolved'' = Some (PBool (al_resolved a))"
proof -
  have 1: "dom (fst (MetricData_to_dict m)) = {''name'', ''value'', ''unit'', ''timestamp''}"
    by (auto simp: MetricData_to_dict_def)
  have 2: "fst (MetricData_to_dict m) ''timestamp'' = Some (PStr (isoformat (md_timestamp m)))"
    by (simp add: MetricData_to_dict_def)
  have 3: "dom (fst (Alert_to_dict a)) =
           {''resource_id'', ''metric_name'', ''threshold'', ''current_value'', ''severity'',
            ''timestamp'', ''resolved''}"
    by (auto simp: Alert_to_dict_def)
  have 4: "fst (Alert_to_dict a) ''timestamp'' = Some (PStr (isoformat (al_timestamp a)))"
    by (simp add: Alert_to_dict_def)
  have 5: "fst (Alert_to_dict a) ''resolved'' = Some (PBool (al_resolved a))"
    by (simp add: Alert_to_dict_def)
  show ?thesis
    using 1 2 3 4 5 is_iso8601_isoformat [of "md_timestamp m"]
      is_iso8601_isoformat [of "al_timestamp a"]
    by blast
qed

text \<open>
  C2 on a sample stamped five and a half hours west of UTC and on the alert of the
  scenario, whose timestamp is naive.
\<close>

theorem to_dict_keys_and_types_witness:
  "valid_datetime (md_timestamp offset_sample) \<and>
   whole_minutes (utcoffset (md_timestamp offset_sample)) \<and>
   valid_datetime (al_timestamp sample_alert) \<and>
   whole_minutes (utcoffset (al_timestamp sample_alert)) \<and>
   dom (fst (MetricData_to_dict offset_sample)) = {''name'', ''value'', ''unit'', ''timestamp''} \<and>
   fst (MetricData_to_dict offset_sample) ''timestamp'' =
     Some (PStr ''2024-02-29T23:05:00.001500-05:30'') \<and>
   is_iso8601 ''2024-02-29T23:05:00.001500-05:30'' \<and>
   dom (fst (Alert_to_dict sample_alert)) =
     {''resource_id'', ''metric_name'', ''threshold'', ''current_value'', ''severity'',
      ''timestamp'', ''resolved''} \<and>
   fst (Alert_to_dict sample_alert) ''timestamp'' = Some (PStr ''2025-11-03T09:30:15'') \<and>
   is_iso8601 ''2025-11-03T09:30:15'' \<and>
   fst (Alert_to_dict sample_alert) ''resolved'' = Some (PBool False)"
proof -
  have mt: "md_timestamp offset_sample = sample_time"
    by (simp add: offset_sample_def)
  have at: "al_timestamp sample_alert = clock_time" and ar: "al_resolved sample_alert = False"
    by (simp_all add: sample_alert_def Alert_init_def)
  have m: "valid_datetime (md_timestamp offset_sample)"
    by (simp add: mt valid_sample_time)
  have mw: "whole_minutes (utcoffset (md_timestamp offset_sample))"
    by (simp add: mt sample_time_def whole_minutes_def)
  have a: "valid_datetime (al_timestamp sample_alert)"
    by (simp add: at valid_clock_time)
  have aw: "whole_minutes (utcoffset (al_timestamp sample_alert))"
    by (simp add: at clock_time_def whole_minutes_def)
  show ?thesis
    using m mw a aw to_dict_keys_and_types [of offset_sample sample_alert]
    by (simp add: mt at ar isoformat_sample_time isoformat_clock_time)
qed

text \<open>
  C2 as stated fails: for a timestamp whose offset from UTC has seconds the entry
  \<open>timestamp\<close> is not in ISO 8601 format, which has hours and minutes only in a
  difference from UTC.
\<close>

theorem to_dict_timestamp_not_iso8601:
  "valid_datetime seconds_offset_time \<and>
   fst (MetricData_to_dict \<lparr>md_name = ''cpu'', md_value = Finite 95 0, md_unit = ''percent'',
          md_timestamp = seconds_offset_time\<rparr>) ''timestamp'' =
     Some (PStr ''2024-06-15T12:00:00+05:30:15'') \<and>
   \<not> is_iso8601 ''2024-06-15T12:00:00+05:30:15''"
  by (simp add: valid_seconds_offset_time MetricData_to_dict_def isoformat_seconds_offset_time
      iso8601_rejects_offset_seconds)




text \<open>
  C4. After any sequence of \<open>evaluate\<close> calls on an engine that started with the empty
  open-alert map, and for any way of choosing the most recent sample, two open alerts
  with the same \<open>(resource_id, metric_name)\<close> are one and the same alert, and it is
  unresolved: there is at most one open alert per pair.
\<close>

theorem one_open_alert_per_key:
  assumes "a \<in> ran (engine_after pick calls)" and "b \<in> ran (engine_after pick calls)"
    and "al_resource_id a = al_resource_id b" and "al_metric_name a = al_metric_name b"
  shows "a = b \<and> \<not> al_resolved a"
proof -
  obtain k1 where k1: "engine_after pick calls k1 = Some a"
    using assms(1) by (auto simp: ran_def)
  obtain k2 where k2: "engine_after pick calls k2 = Some b"
    using assms(2) by (auto simp: ran_def)
  have ka: "al_resource_id a = fst k1" "al_metric_name a = snd k1" "\<not> al_resolved a"
    using engine_after_keyed k1 by blast+
  have kb: "al_resource_id b = fst k2" "al_metric_name b = snd k2"
    using engine_after_keyed k2 by blast+
  have "k1 = k2" using ka kb assms(3,4) by (simp add: prod_eq_iff)
  then show ?thesis using k1 k2 ka(3) by simp
qed


text \<open>C4 on the scenario: the alert raised at the reading 95 is the open one.\<close>

theorem one_open_alert_per_key_witness:
  "sample_alert \<in> ran (engine_after most_recent_matching scenario_calls) \<and>
   al_resource_id sample_alert = al_resource_id sample_alert \<and>
   al_metric_name sample_alert = al_metric_name sample_alert \<and>
   sample_alert = sample_alert \<and> \<not> al_resolved sample_alert"
proof -
  have r: "sample_alert \<in> ran (engine_after most_recent_matching scenario_calls)"
    using scenario_open_alert by (rule ranI)
  show ?thesis
    using r one_open_alert_per_key [OF r r refl refl] by simp
qed

text \<open>
  C5. Every call of \<open>collect_metrics\<close> on the base class raises
  \<open>NotImplementedError\<close>; it never returns a value.
\<close>

theorem collect_metrics_raises:
  "(\<exists>msg. collect_metrics r = Inl (NotImplementedError msg)) \<and>
   (\<forall>v. collect_metrics r \<noteq> Inr v)"
  by (simp add: collect_metrics_def)

text \<open>
  C6. A sample constructed without a timestamp carries the reading of the clock at
  construction; a sample constructed with a timestamp carries that timestamp
  unchanged.
\<close>

theorem metric_init_timestamp:
  "(\<exists>m. MetricData_init name val unit None now = Inr m \<and> md_timestamp m = now) \<and>
   (\<exists>m. MetricData_init name val unit (Some t) now = Inr m \<and> md_timestamp m = t)"
  by (simp add: MetricData_init_def timestamp_or_now_def)

text \<open>
  C7. The one operation of a sample, \<open>to_dict\<close>, leaves the sample as it was: the
  name, the value, the unit and the timestamp are unchanged.
\<close>

theorem metric_to_dict_leaves_fields:
  "snd (MetricData_to_dict m) = m \<and>
   md_name (snd (MetricData_to_dict m)) = md_name m \<and>
   md_value (snd (MetricData_to_dict m)) = md_value m \<and>
   md_unit (snd (MetricData_to_dict m)) = md_unit m \<and>
   md_timestamp (snd (MetricData_to_dict m)) = md_timestamp m"
  by (simp add: MetricData_to_dict_def)

text \<open>
  C8. \<open>get_health_status\<close> returns the status stored in the resource and leaves the
  resource unchanged.
\<close>

theorem get_health_status_stored:
  "fst (get_health_status r) = cr_status r \<and> snd (get_health_status r) = r"
  by (simp add: get_health_status_def)

text \<open>
  C9. A freshly constructed resource has the status \<open>unknown\<close> and empty \<open>metadata\<close>
  and \<open>metrics\<close>, whatever the arguments of the constructor.
\<close>

theorem fresh_resource_unknown:
  "cr_status (CloudResource_init resource_id resource_type region) = ''unknown'' \<and>
   cr_metadata (CloudResource_init resource_id resource_type region) = Map.empty \<and>
   cr_metrics (CloudResource_init resource_id resource_type region) = Map.empty"
  by (simp add: CloudResource_init_def)

text \<open>
  C10. A freshly constructed alert is open: \<open>resolved\<close> is \<open>False\<close> and the timestamp
  is the reading of the clock at creation, whatever the arguments of the constructor.
\<close>

theorem fresh_alert_open:
  "al_resolved (Alert_init resource_id metric_name threshold current_value severity now) = False \<and>
   al_timestamp (Alert_init resource_id metric_name threshold current_value severity now) = now"
  by (simp add: Alert_init_def)

end
